theory Spec2Isabelle
  imports Complex_Main
begin

section \<open>Strings\<close>

text \<open>
  A JavaScript string is a sequence of UTF-16 code units, and \<open>.length\<close> counts code
  units. A string is modelled as the list of its code units; \<open>ascii\<close> embeds an ASCII
  literal.
\<close>

type_synonym jsstring = "nat list"

definition ascii :: "string \<Rightarrow> jsstring" where
  "ascii s = map of_char s"

text \<open>
  \<open>String.prototype.trim\<close> removes the code units of the ECMAScript productions
  WhiteSpace and LineTerminator from both ends.
\<close>

definition isWhiteSpace :: "nat \<Rightarrow> bool" where
  "isWhiteSpace c =
     (c = 0x09 \<or> c = 0x0A \<or> c = 0x0B \<or> c = 0x0C \<or> c = 0x0D \<or> c = 0x20 \<or>
      c = 0xA0 \<or> c = 0x1680 \<or> (0x2000 \<le> c \<and> c \<le> 0x200A) \<or>
      c = 0x2028 \<or> c = 0x2029 \<or> c = 0x202F \<or> c = 0x205F \<or> c = 0x3000 \<or>
      c = 0xFEFF)"

definition trim :: "jsstring \<Rightarrow> jsstring" where
  "trim s = rev (dropWhile isWhiteSpace (rev (dropWhile isWhiteSpace s)))"

section \<open>Numbers\<close>

text \<open>
  A JavaScript number is an IEEE 754 double: a finite value, which is a rational
  number, one of the two infinities, or NaN. The sign of zero is not modelled. The
  result of an arithmetic operation on finite operands is the exact result rounded to
  the nearest double, ties going to the even significand: \<open>toDouble\<close>. A double has a
  significand of 53 bits; the exponent of a normal double is at least \<open>-1022\<close>, below
  that the spacing of the doubles stays \<open>2 powi (-1074)\<close>, and a rounded value of
  \<open>2 powi 1024\<close> or more is infinite. \<open>exponent2 x\<close> is the exponent of the power
  of two at or below a positive \<open>x\<close>, computed from the bit length of an integer.
\<close>

datatype jsnumber = Finite rat | PosInf | NegInf | NaN

fun bitLength :: "nat \<Rightarrow> nat" where
  "bitLength n = (if n = 0 then 0 else Suc (bitLength (n div 2)))"

declare bitLength.simps [simp del]

definition exponent2 :: "rat \<Rightarrow> int" where
  "exponent2 x =
     (if 1 \<le> x then int (bitLength (nat \<lfloor>x\<rfloor>)) - 1
      else - int (bitLength (nat (\<lceil>1 / x\<rceil> - 1))))"

definition roundTiesToEven :: "rat \<Rightarrow> int" where
  "roundTiesToEven m =
     (let f = \<lfloor>m\<rfloor>; r = m - of_int f
      in if r < 1 / 2 then f
         else if r > 1 / 2 then f + 1
         else if even f then f else f + 1)"

definition toDouble :: "rat \<Rightarrow> jsnumber" where
  "toDouble x =
     (if x = 0 then Finite 0
      else
        (let a = \<bar>x\<bar>;
             k = max (exponent2 a) (- 1022);
             ulp = 2 powi (k - 52);
             y = of_int (roundTiesToEven (a / ulp)) * ulp
         in if y \<ge> 2 powi 1024 then (if x > 0 then PosInf else NegInf)
            else Finite (if x > 0 then y else - y)))"

text \<open>
  The operators \<open>/\<close> and \<open>*\<close> on numbers. Dividing by zero does not throw: it gives
  NaN for \<open>0 / 0\<close> and an infinity otherwise.
\<close>

fun jsdiv :: "jsnumber \<Rightarrow> jsnumber \<Rightarrow> jsnumber" where
  "jsdiv NaN _ = NaN"
| "jsdiv _ NaN = NaN"
| "jsdiv (Finite a) (Finite b) =
     (if b = 0 then (if a = 0 then NaN else if a > 0 then PosInf else NegInf)
      else toDouble (a / b))"
| "jsdiv (Finite a) _ = Finite 0"
| "jsdiv PosInf (Finite b) = (if b \<ge> 0 then PosInf else NegInf)"
| "jsdiv NegInf (Finite b) = (if b \<ge> 0 then NegInf else PosInf)"
| "jsdiv _ _ = NaN"

fun jsmul :: "jsnumber \<Rightarrow> jsnumber \<Rightarrow> jsnumber" where
  "jsmul NaN _ = NaN"
| "jsmul _ NaN = NaN"
| "jsmul (Finite a) (Finite b) = toDouble (a * b)"
| "jsmul (Finite a) PosInf = (if a = 0 then NaN else if a > 0 then PosInf else NegInf)"
| "jsmul (Finite a) NegInf = (if a = 0 then NaN else if a > 0 then NegInf else PosInf)"
| "jsmul PosInf (Finite b) = (if b = 0 then NaN else if b > 0 then PosInf else NegInf)"
| "jsmul NegInf (Finite b) = (if b = 0 then NaN else if b > 0 then NegInf else PosInf)"
| "jsmul PosInf PosInf = PosInf"
| "jsmul NegInf NegInf = PosInf"
| "jsmul _ _ = NegInf"

section \<open>Time\<close>

text \<open>
  An instant (a JavaScript \<open>Date\<close> with a valid time value, or a \<open>Dayjs\<close> object) is
  its number of milliseconds since the epoch, in UTC. The environment of a call holds
  what the code reads from outside: the clock (\<open>new Date()\<close>, \<open>dayjs()\<close>), the
  offset of local time from UTC in milliseconds (taken as constant: no daylight-saving
  shift is modelled), and the outcome of \<open>crypto.randomUUID()\<close> (\<open>None\<close> when the
  call throws).
\<close>

type_synonym instant = int

record env =
  now :: instant
  tz :: int
  randomUUID :: "jsstring option"

definition msPerDay :: int where
  "msPerDay = 86400000"

text \<open>The local calendar day of an instant, as a day number (day 0 is 1970-01-01).\<close>

definition localDay :: "int \<Rightarrow> instant \<Rightarrow> int" where
  "localDay z t = (t + z) div msPerDay"

text \<open>
  The functions of the dayjs library that Home.tsx calls, at unit \<open>"day"\<close>. The
  library is a dependency of the repository; the definitions follow its code:
  \<open>startOf\<close>, \<open>endOf\<close> (the last millisecond of the local day),
  \<open>a.isSame(b, "day")\<close> as \<open>a.startOf("day") <= b && b <= a.endOf("day")\<close>,
  \<open>a.isAfter(b, "day")\<close> as \<open>b < a.startOf("day")\<close>, \<open>a.isBefore(b, "day")\<close> as
  \<open>a.endOf("day") < b\<close>, and the plugin's \<open>isBetween\<close> with inclusivity \<open>"[]"\<close>,
  which accepts its two bounds in either order. The receiver \<open>a\<close> is the argument
  \<open>this\<close>. \<open>endOf("week")\<close> is the end of the Saturday of the local week (the default
  locale starts the week on Sunday); \<open>weekday\<close> is \<open>0\<close> on Sunday, and day 0 was a
  Thursday.
\<close>

definition startOfDay :: "int \<Rightarrow> instant \<Rightarrow> instant" where
  "startOfDay z t = localDay z t * msPerDay - z"

definition endOfDay :: "int \<Rightarrow> instant \<Rightarrow> instant" where
  "endOfDay z t = startOfDay z t + (msPerDay - 1)"

definition weekday :: "int \<Rightarrow> instant \<Rightarrow> int" where
  "weekday z t = (localDay z t + 4) mod 7"

definition endOfWeek :: "int \<Rightarrow> instant \<Rightarrow> instant" where
  "endOfWeek z t = endOfDay z (t + (6 - weekday z t) * msPerDay)"

definition isSame_day :: "int \<Rightarrow> instant \<Rightarrow> instant \<Rightarrow> bool" where
  "isSame_day z this that = (startOfDay z this \<le> that \<and> that \<le> endOfDay z this)"

definition isAfter_day :: "int \<Rightarrow> instant \<Rightarrow> instant \<Rightarrow> bool" where
  "isAfter_day z this that = (that < startOfDay z this)"

definition isBefore_day :: "int \<Rightarrow> instant \<Rightarrow> instant \<Rightarrow> bool" where
  "isBefore_day z this that = (endOfDay z this < that)"

definition isBetween_day :: "int \<Rightarrow> instant \<Rightarrow> instant \<Rightarrow> instant \<Rightarrow> bool" where
  "isBetween_day z this a b =
     ((\<not> isBefore_day z this a \<and> \<not> isAfter_day z this b) \<or>
      (\<not> isAfter_day z this a \<and> \<not> isBefore_day z this b))"

section \<open>Tasks\<close>

text \<open>
  The \<open>Task\<close> interface, with the fields that Home.tsx, TaskDetails.tsx and
  AddTask.tsx read or write. An optional field is an \<open>option\<close>. The fields \<open>id\<close> and
  \<open>done\<close> are \<open>task_id\<close> and \<open>task_done\<close> here. A category is kept as its identifier.
  A deadline that is present is a valid date.
\<close>

datatype TaskPriority = Critical | High | Medium | Low

record Task =
  task_id :: jsstring
  task_done :: bool
  pinned :: bool
  name :: jsstring
  description :: "jsstring option"
  color :: jsstring
  date :: instant
  deadline :: "instant option"
  category :: "jsstring list option"
  priority :: "TaskPriority option"

section \<open>Home.tsx: the task filter\<close>

text \<open>
  The memoised value \<open>filteredTasks\<close> as a function of what it reads: the clock, the
  filter (a string; the toggle buttons offer All, Today, This Week and Custom), the two
  custom bounds (\<open>Dayjs | null\<close>) and the tasks. \<open>today\<close> and \<open>endOfWeek\<close> are
  computed once, before the \<open>switch\<close>.
\<close>

definition filteredTasks ::
  "env \<Rightarrow> jsstring \<Rightarrow> instant option \<Rightarrow> instant option \<Rightarrow> Task list \<Rightarrow> Task list" where
  "filteredTasks e flt customStart customEnd tasks =
     (let today = startOfDay (tz e) (now e);
          endWeek = endOfWeek (tz e) (now e)
      in if flt = ascii ''Today'' then
           filter (\<lambda>task. case deadline task of
                      Some d \<Rightarrow> isSame_day (tz e) d today
                    | None \<Rightarrow> False) tasks
         else if flt = ascii ''This Week'' then
           filter (\<lambda>task. case deadline task of
                      Some d \<Rightarrow> isBetween_day (tz e) d today endWeek
                    | None \<Rightarrow> False) tasks
         else if flt = ascii ''Custom'' then
           (case (customStart, customEnd) of
              (Some s, Some f) \<Rightarrow>
                filter (\<lambda>task. case deadline task of
                           Some d \<Rightarrow> isBetween_day (tz e) d s f
                         | None \<Rightarrow> False) tasks
            | _ \<Rightarrow> tasks)
         else tasks)"

section \<open>Home.tsx: statistics, greeting and completion text\<close>

text \<open>
  The memoised value \<open>taskStats\<close>. A length is a natural number; as an operand of
  \<open>/\<close> it is the double of the same value (a length is below \<open>2 ^ 32\<close>, and every
  integer up to \<open>2 ^ 53\<close> is a double). The percentage is a number, computed with the
  operators on doubles. \<open>dueTodayTasks\<close> is the local constant of that name; the
  snapshot keeps its length and the names of its tasks.
\<close>

record TaskStats =
  completedTasksCount :: nat
  completedTaskPercentage :: jsnumber
  tasksWithDeadlineTodayCount :: nat
  tasksDueTodayNames :: "jsstring list"

definition dueTodayTasks :: "env \<Rightarrow> Task list \<Rightarrow> Task list" where
  "dueTodayTasks e tasks =
     (let today = startOfDay (tz e) (now e)
      in filter (\<lambda>task. (case deadline task of
                         Some d \<Rightarrow> isSame_day (tz e) d today
                       | None \<Rightarrow> False) \<and> \<not> task_done task) tasks)"

definition taskStats :: "env \<Rightarrow> Task list \<Rightarrow> TaskStats" where
  "taskStats e tasks =
     (let completedCount = length (filter task_done tasks);
          completedPercentage =
            (if length tasks > 0
             then jsmul (jsdiv (Finite (of_nat completedCount))
                          (Finite (of_nat (length tasks))))
                    (Finite 100)
             else Finite 0);
          due = dueTodayTasks e tasks
      in \<lparr>completedTasksCount = completedCount,
          completedTaskPercentage = completedPercentage,
          tasksWithDeadlineTodayCount = length due,
          tasksDueTodayNames = map name due\<rparr>)"

text \<open>
  \<open>new Date().getHours()\<close> is the hour of the local time of day. \<open>greetingOfHour\<close>
  is the body of the memoised value \<open>timeGreeting\<close> after \<open>currentHour\<close> is read.
\<close>

definition getHours :: "env \<Rightarrow> int" where
  "getHours e = ((now e + tz e) mod msPerDay) div 3600000"

definition greetingOfHour :: "int \<Rightarrow> jsstring" where
  "greetingOfHour currentHour =
     (if currentHour \<ge> 5 \<and> currentHour < 12 then ascii ''Good morning''
      else if currentHour \<ge> 12 \<and> currentHour < 17 then ascii ''Good afternoon''
      else if currentHour \<ge> 17 \<and> currentHour < 21 then ascii ''Good evening''
      else ascii ''Good night'')"

definition timeGreeting :: "env \<Rightarrow> jsstring" where
  "timeGreeting e = greetingOfHour (getHours e)"

text \<open>
  The memoised value \<open>taskCompletionText\<close> as a function of the two values it depends
  on, \<open>percentage\<close> and \<open>totalTasks\<close>. Five of the six literals of Home.tsx start
  with code units outside ASCII; they are written as numbers.
\<close>

definition taskCompletionText :: "rat \<Rightarrow> nat \<Rightarrow> jsstring" where
  "taskCompletionText percentage totalTasks =
     (if totalTasks = 0 then ascii ''Add your first task to get started!''
      else if percentage = 100 then
        [0xF0, 0x178, 0x17D, 0x2030] @ ascii '' Amazing! All tasks completed!''
      else if percentage \<ge> 75 then
        [0xF0, 0x178, 0x161, 0x20AC] @ ascii '' Almost there! Just a few more to go!''
      else if percentage \<ge> 50 then
        [0xF0, 0x178, 0x2019, 0xAA] @ ascii '' You're halfway there! Keep it up!''
      else if percentage \<ge> 25 then
        [0xF0, 0x178, 0x2018] @ ascii '' You're making good progress!''
      else
        [0xF0, 0x178, 0x17D, 0xAF] @
          ascii '' You're just getting started. You've got this!'')"

section \<open>The near-duplicate of the home screen\<close>

text \<open>
  The repository holds a second, untyped copy of the home screen
  (src/unnamed/part_000). Its filter, greeting and completion text differ from
  Home.tsx in the places written out here; its statistics are the same.
\<close>

definition filteredTasks_part000 ::
  "env \<Rightarrow> jsstring \<Rightarrow> instant option \<Rightarrow> instant option \<Rightarrow> Task list \<Rightarrow> Task list" where
  "filteredTasks_part000 e flt customStart customEnd tasks =
     (let today = startOfDay (tz e) (now e);
          endWeek = endOfWeek (tz e) (now e)
      in if flt = ascii ''Today'' then
           filter (\<lambda>task. case deadline task of
                      Some d \<Rightarrow> isSame_day (tz e) d today
                    | None \<Rightarrow> False) tasks
         else if flt = ascii ''This Week'' then
           filter (\<lambda>task. case deadline task of
                      Some d \<Rightarrow> isBetween_day (tz e) d today endWeek
                    | None \<Rightarrow> False) tasks
         else if flt = ascii ''Custom'' then
           (case (customStart, customEnd) of
              (Some s, Some f) \<Rightarrow>
                filter (\<lambda>task. case deadline task of
                           Some d \<Rightarrow> isBetween_day (tz e) d s f
                         | None \<Rightarrow> False) tasks
            | _ \<Rightarrow> [])
         else tasks)"

definition greetingOfHour_part000 :: "int \<Rightarrow> jsstring" where
  "greetingOfHour_part000 currentHour =
     (if currentHour \<ge> 5 \<and> currentHour < 12 then ascii ''Good morning''
      else if currentHour \<ge> 12 \<and> currentHour < 18 then ascii ''Good afternoon''
      else ascii ''Good evening'')"

definition taskCompletionText_part000 :: "rat \<Rightarrow> jsstring" where
  "taskCompletionText_part000 percentage =
     (if percentage = 0 then ascii ''No tasks completed yet. Keep going!''
      else if percentage = 100 then ascii ''Congratulations! All tasks completed!''
      else if percentage \<ge> 75 then ascii ''Almost there!''
      else if percentage \<ge> 50 then ascii ''You're halfway there! Keep it up!''
      else if percentage \<ge> 25 then ascii ''You're making good progress.''
      else ascii ''You're just getting started.'')"

section \<open>TaskDetails.tsx: the priority chip\<close>

text \<open>
  \<open>PRIORITY_CONFIG\<close> is a \<open>Record<string, \<dots>>\<close>: a lookup by a string key, which is
  \<open>undefined\<close> (\<open>None\<close>) for a key the object does not have. The four emoji are
  outside the Basic Multilingual Plane: each is two code units. \<open>priorityString\<close>
  gives the string that a member of the union type \<open>TaskPriority\<close> is.
\<close>

record PriorityStyle =
  style_color :: jsstring
  style_emoji :: jsstring
  style_textColor :: jsstring

definition PRIORITY_CONFIG :: "jsstring \<rightharpoonup> PriorityStyle" where
  "PRIORITY_CONFIG = map_of
     [(ascii ''Critical'',
         \<lparr>style_color = ascii ''#f44336'', style_emoji = [0xD83D, 0xDD34],
          style_textColor = ascii ''#fff''\<rparr>),
      (ascii ''High'',
         \<lparr>style_color = ascii ''#ff9800'', style_emoji = [0xD83D, 0xDFE1],
          style_textColor = ascii ''#000''\<rparr>),
      (ascii ''Medium'',
         \<lparr>style_color = ascii ''#9c27b0'', style_emoji = [0xD83D, 0xDFE3],
          style_textColor = ascii ''#fff''\<rparr>),
      (ascii ''Low'',
         \<lparr>style_color = ascii ''#4caf50'', style_emoji = [0xD83D, 0xDFE2],
          style_textColor = ascii ''#fff''\<rparr>)]"

primrec priorityString :: "TaskPriority \<Rightarrow> jsstring" where
  "priorityString Critical = ascii ''Critical''"
| "priorityString High = ascii ''High''"
| "priorityString Medium = ascii ''Medium''"
| "priorityString Low = ascii ''Low''"

text \<open>
  \<open>task.priority || "Medium"\<close>: none of the four strings is empty, so the right
  operand is taken exactly when the field is absent.
\<close>

definition priorityOrMedium :: "Task \<Rightarrow> jsstring" where
  "priorityOrMedium task =
     (case priority task of Some p \<Rightarrow> priorityString p | None \<Rightarrow> ascii ''Medium'')"

definition priorityConfig :: "Task \<Rightarrow> PriorityStyle option" where
  "priorityConfig task = PRIORITY_CONFIG (priorityOrMedium task)"

text \<open>
  The priority chip: its label is the template literal
  \<open>`${priorityConfig.emoji} ${task.priority || "Medium"}`\<close>. Reading a property of an
  undefined \<open>priorityConfig\<close> throws; that outcome is \<open>None\<close>.
\<close>

record Chip =
  chip_label :: jsstring
  chip_backgroundColor :: jsstring
  chip_color :: jsstring

definition priorityChip :: "Task \<Rightarrow> Chip option" where
  "priorityChip task =
     (case priorityConfig task of
        None \<Rightarrow> None
      | Some cfg \<Rightarrow>
          Some \<lparr>chip_label = style_emoji cfg @ ascii '' '' @ priorityOrMedium task,
                chip_backgroundColor = style_color cfg,
                chip_color = style_textColor cfg\<rparr>)"

section \<open>AddTask.tsx: validation and creation\<close>

text \<open>
  The state of the dialog is the six \<open>useState\<close> values. The value of the date input
  is the empty string (\<open>None\<close>) or a calendar date \<open>YYYY-MM-DD\<close>, kept as its day
  number. \<open>new Date("YYYY-MM-DD")\<close> is midnight of that date in UTC, whereas
  \<open>new Date("YYYY-MM-DDT23:59:59")\<close> and \<open>setHours(0, 0, 0, 0)\<close> are in local time.
  The user record holds the tasks (\<open>user.tasks\<close>); the spread \<open>...user\<close> keeps every other field.
\<close>

record AddTaskState =
  form_open :: bool
  form_name :: jsstring
  form_description :: jsstring
  form_deadline :: "int option"
  form_priority :: TaskPriority
  form_error :: jsstring

record User =
  user_tasks :: "Task list"

text \<open>\<open>validateForm\<close> returns its verdict and the state after its \<open>setError\<close>.\<close>

definition validateForm :: "env \<Rightarrow> AddTaskState \<Rightarrow> bool \<times> AddTaskState" where
  "validateForm e st =
     (if trim (form_name st) = [] then
        (False, st\<lparr>form_error := ascii ''Task name is required''\<rparr>)
      else if length (trim (form_name st)) > 100 then
        (False, st\<lparr>form_error := ascii ''Task name must be less than 100 characters''\<rparr>)
      else if length (form_description st) > 500 then
        (False, st\<lparr>form_error := ascii ''Description must be less than 500 characters''\<rparr>)
      else
        (case form_deadline st of
           Some day \<Rightarrow>
             (let selectedDate = day * msPerDay;
                  today = startOfDay (tz e) (now e)
              in if selectedDate < today then
                   (False, st\<lparr>form_error := ascii ''Deadline cannot be in the past''\<rparr>)
                 else (True, st))
         | None \<Rightarrow> (True, st)))"

definition handleClose :: "AddTaskState \<Rightarrow> AddTaskState" where
  "handleClose st =
     st\<lparr>form_open := False, form_name := [], form_description := [],
        form_deadline := None, form_priority := Medium, form_error := []\<rparr>"

definition newTask :: "env \<Rightarrow> jsstring \<Rightarrow> AddTaskState \<Rightarrow> Task" where
  "newTask e uuid st =
     \<lparr>task_id = uuid,
      task_done = False,
      pinned = False,
      name = trim (form_name st),
      description =
        (if trim (form_description st) = [] then None
         else Some (trim (form_description st))),
      color = ascii ''#1976d2'',
      date = now e,
      deadline =
        (case form_deadline st of
           Some day \<Rightarrow> Some (day * msPerDay + 86399000 - tz e)
         | None \<Rightarrow> None),
      category = Some [],
      priority = Some (form_priority st)\<rparr>"

text \<open>
  \<open>handleAddTask\<close> on the dialog state and the user: the state and the user after the
  handler. The \<open>catch\<close> branch is reached when \<open>crypto.randomUUID()\<close> throws.
\<close>

definition handleAddTask :: "env \<Rightarrow> AddTaskState \<times> User \<Rightarrow> AddTaskState \<times> User" where
  "handleAddTask e su =
     (let st = fst su; user = snd su;
          (ok, st1) = validateForm e (st\<lparr>form_error := []\<rparr>)
      in if \<not> ok then (st1, user)
         else
           (case randomUUID e of
              Some uuid \<Rightarrow>
                (handleClose st1, user\<lparr>user_tasks := user_tasks user @ [newTask e uuid st]\<rparr>)
            | None \<Rightarrow>
                (st1\<lparr>form_error := ascii ''Failed to add task. Please try again.''\<rparr>,
                 user)))"

section \<open>Vocabulary of the specification\<close>

text \<open>
  The specification speaks of the calendar day a deadline falls on: \<open>deadlineDay\<close> is
  the local day number of a task's deadline, and \<open>None\<close> for a task without one.
\<close>

definition deadlineDay :: "int \<Rightarrow> Task \<Rightarrow> int option" where
  "deadlineDay z task = map_option (localDay z) (deadline task)"

text \<open>
  The specification's \<open>completionMessage\<close>: an ordered table of conditions and tiers,
  read from the top, the first row whose condition holds giving the tier, and the last
  tier when none does. \<open>tierText\<close> is the message Home.tsx shows for a tier.
\<close>

datatype CompletionTier =
  NoTasksYet | Celebratory | AlmostThere | Halfway | GoodProgress | JustGettingStarted

definition completionTiers :: "((rat \<Rightarrow> nat \<Rightarrow> bool) \<times> CompletionTier) list" where
  "completionTiers =
     [(\<lambda>percentage totalTasks. totalTasks = 0, NoTasksYet),
      (\<lambda>percentage totalTasks. percentage = 100, Celebratory),
      (\<lambda>percentage totalTasks. percentage \<ge> 75, AlmostThere),
      (\<lambda>percentage totalTasks. percentage \<ge> 50, Halfway),
      (\<lambda>percentage totalTasks. percentage \<ge> 25, GoodProgress)]"

definition completionMessage_spec :: "rat \<Rightarrow> nat \<Rightarrow> CompletionTier" where
  "completionMessage_spec percentage totalTasks =
     (case find (\<lambda>row. fst row percentage totalTasks) completionTiers of
        Some row \<Rightarrow> snd row
      | None \<Rightarrow> JustGettingStarted)"

primrec tierText :: "CompletionTier \<Rightarrow> jsstring" where
  "tierText NoTasksYet = ascii ''Add your first task to get started!''"
| "tierText Celebratory =
     [0xF0, 0x178, 0x17D, 0x2030] @ ascii '' Amazing! All tasks completed!''"
| "tierText AlmostThere =
     [0xF0, 0x178, 0x161, 0x20AC] @ ascii '' Almost there! Just a few more to go!''"
| "tierText Halfway =
     [0xF0, 0x178, 0x2019, 0xAA] @ ascii '' You're halfway there! Keep it up!''"
| "tierText GoodProgress =
     [0xF0, 0x178, 0x2018] @ ascii '' You're making good progress!''"
| "tierText JustGettingStarted =
     [0xF0, 0x178, 0x17D, 0xAF] @
       ascii '' You're just getting started. You've got this!''"

section \<open>Example data\<close>

text \<open>
  Two environments at the same calendar date, Monday 2026-11-02 (day 20759), 10:00 local
  time: one five and a half hours ahead of UTC, one five hours behind. The tasks are
  due today at 23:59:59, on the Saturday of the week (day 20764) at noon, ten days
  later (day 20769), and not at all; times of day are those of the first environment.
\<close>

definition exampleEnv :: env where
  "exampleEnv =
     \<lparr>now = 1793593800000, tz = 19800000,
      randomUUID = Some (ascii ''0f8fad5b-d9cb-469f-a165-70867728950e'')\<rparr>"

definition westEnv :: env where
  "westEnv =
     \<lparr>now = 1793631600000, tz = - 18000000,
      randomUUID = Some (ascii ''7c9e6679-7425-40de-944b-e07fc1f90ae7'')\<rparr>"

definition exampleTask :: "jsstring \<Rightarrow> bool \<Rightarrow> instant option \<Rightarrow> Task" where
  "exampleTask n d dl =
     \<lparr>task_id = ascii ''id-'' @ n, task_done = d, pinned = False, name = n,
      description = None, color = ascii ''#1976d2'', date = 1793500000000,
      deadline = dl, category = None, priority = None\<rparr>"

definition taskToday :: Task where
  "taskToday = exampleTask (ascii ''pay rent'') False (Some 1793644199000)"

definition taskSaturday :: Task where
  "taskSaturday = exampleTask (ascii ''call home'') False (Some 1794033000000)"

definition taskLater :: Task where
  "taskLater = exampleTask (ascii ''renew passport'') True (Some 1794441600000)"

definition taskNoDeadline :: Task where
  "taskNoDeadline = exampleTask (ascii ''read'') False None"

definition exampleTasks :: "Task list" where
  "exampleTasks = [taskToday, taskNoDeadline, taskSaturday, taskLater]"

text \<open>Twenty-five tasks, seven of them done.\<close>

definition twentyFiveTasks :: "Task list" where
  "twentyFiveTasks = replicate 7 taskLater @ replicate 18 taskToday"

definition exampleUser :: User where
  "exampleUser = \<lparr>user_tasks = exampleTasks\<rparr>"

text \<open>A filled form whose deadline is the current date, 2026-11-02.\<close>

definition todayForm :: AddTaskState where
  "todayForm =
     \<lparr>form_open = True, form_name = ascii '' Pay rent '', form_description = [],
      form_deadline = Some 20759, form_priority = High, form_error = []\<rparr>"

section \<open>Facts about numbers\<close>

text \<open>Integers and the number 100 are doubles: rounding leaves them as they are.\<close>

lemma toDouble_0: "toDouble 0 = Finite 0"
  by (simp add: toDouble_def)

lemma toDouble_1: "toDouble 1 = Finite 1"
  by code_simp

lemma toDouble_100: "toDouble 100 = Finite 100"
  by code_simp

lemma toDouble_not_NaN: "toDouble x \<noteq> NaN"
  by (simp add: toDouble_def Let_def)

lemma jsmul_100_not_NaN: "X \<noteq> NaN \<Longrightarrow> jsmul X (Finite 100) \<noteq> NaN"
  by (cases X) (simp_all add: toDouble_not_NaN)

text \<open>The unguarded percentage of no tasks, and the percentage of 7 done out of 25.\<close>

lemma percentage_0_of_0: "jsmul (jsdiv (Finite 0) (Finite 0)) (Finite 100) = NaN"
  by simp

lemma percentage_7_of_25:
  "jsmul (jsdiv (Finite 7) (Finite 25)) (Finite 100) =
     Finite (7881299347898369 / 281474976710656)"
  by code_simp

lemma percentage_1_of_2: "jsmul (jsdiv (Finite 1) (Finite 2)) (Finite 100) = Finite 50"
  by code_simp

text \<open>
  The bit length brackets a positive integer between two powers of two, and so
  \<open>exponent2\<close> brackets a positive rational.
\<close>

lemma bitLength_bounds:
  "0 < n \<Longrightarrow> 2 ^ (bitLength n - 1) \<le> n \<and> n < 2 ^ bitLength n"
proof (induction n rule: bitLength.induct)
  case (1 n)
  show ?case
  proof (cases "n div 2 = 0")
    case True
    with "1.prems" have "n = Suc 0" by (simp add: div_eq_0_iff)
    moreover have "bitLength (Suc 0) = Suc 0"
      by (simp add: bitLength.simps [of "Suc 0"] bitLength.simps [of 0])
    ultimately show ?thesis by simp
  next
    case False
    then have pos: "0 < n div 2" by simp
    from "1.prems" have n0: "n \<noteq> 0" by simp
    let ?b = "bitLength (n div 2)"
    from "1.IH" [OF n0 pos] have lo: "2 ^ (?b - 1) \<le> n div 2" and hi: "n div 2 < 2 ^ ?b"
      by simp_all
    have bpos: "0 < ?b" using pos by (simp add: bitLength.simps [of "n div 2"])
    have bl: "bitLength n = Suc ?b" using n0 by (simp add: bitLength.simps [of n])
    have "(2::nat) ^ ?b = 2 * 2 ^ (?b - 1)" using bpos by (cases ?b) simp_all
    then have "2 ^ ?b \<le> 2 * (n div 2)" using lo by simp
    also have "\<dots> \<le> n" by simp
    finally have a: "2 ^ ?b \<le> n" .
    have "n < 2 * (n div 2) + 2" by presburger
    also have "\<dots> \<le> 2 * 2 ^ ?b" using hi by simp
    finally have b: "n < 2 ^ Suc ?b" by simp
    show ?thesis using a b by (simp add: bl)
  qed
qed

text \<open>Rounding to an integer moves a number by at most one half.\<close>

lemma roundTiesToEven_error: "\<bar>of_int (roundTiesToEven m) - m\<bar> \<le> 1 / 2"
proof -
  have "of_int \<lfloor>m\<rfloor> \<le> m" "m < of_int \<lfloor>m\<rfloor> + 1" by linarith+
  then show ?thesis
    by (auto simp: roundTiesToEven_def Let_def abs_le_iff)
qed


lemma exponent2_bounds:
  assumes "0 < x"
  shows "2 powi exponent2 x \<le> x \<and> x < 2 powi (exponent2 x + 1)"
proof (cases "1 \<le> x")
  case True
  let ?f = "nat \<lfloor>x\<rfloor>"
  have f1: "0 < ?f" using True by simp
  have ff: "(of_nat ?f :: rat) = of_int \<lfloor>x\<rfloor>" using True by simp
  have "of_int \<lfloor>x\<rfloor> \<le> x" "x < of_int \<lfloor>x\<rfloor> + 1" by linarith+
  then have fx: "of_nat ?f \<le> x" "x < of_nat ?f + 1"
    by (simp_all only: ff)
  let ?b = "bitLength ?f"
  from bitLength_bounds [OF f1] have lo: "2 ^ (?b - 1) \<le> ?f" and hi: "?f < 2 ^ ?b"
    by simp_all
  have bpos: "0 < ?b" using f1 by (simp add: bitLength.simps [of ?f])
  have e: "exponent2 x = int (?b - 1)" using True bpos by (simp add: exponent2_def)
  have "(2::rat) ^ (?b - 1) = of_nat (2 ^ (?b - 1))" by simp
  also have "\<dots> \<le> of_nat ?f" using lo by (simp only: of_nat_le_iff)
  finally have a: "(2::rat) ^ (?b - 1) \<le> x" using fx by linarith
  have "?f + 1 \<le> 2 ^ ?b" using hi by arith
  then have g1: "(of_nat (?f + 1) :: rat) \<le> of_nat (2 ^ ?b)" by (simp only: of_nat_le_iff)
  have g2: "(of_nat (?f + 1) :: rat) = of_nat ?f + 1" by simp
  have g3: "(of_nat (2 ^ ?b) :: rat) = 2 ^ ?b" by simp
  have b: "x < 2 ^ ?b" using fx(2) g1 g2 g3 by linarith
  have p1: "(2::rat) powi exponent2 x = 2 ^ (?b - 1)"
    unfolding e by (rule power_int_of_nat)
  have "exponent2 x + 1 = int ?b" using bpos by (simp add: e)
  then have p2: "(2::rat) powi (exponent2 x + 1) = 2 ^ ?b"
    by (simp only: power_int_of_nat)
  show ?thesis using a b by (simp only: p1 p2)
next
  case False
  then have x1: "x < 1" by simp
  let ?c = "\<lceil>1 / x\<rceil>"
  have inv: "1 < 1 / x" using assms x1 by simp
  have c2: "2 \<le> ?c" using inv by (simp add: le_ceiling_iff) 
  let ?n = "nat (?c - 1)"
  have n1: "0 < ?n" using c2 by simp
  have cx: "of_int (?c - 1) < 1 / x" "1 / x \<le> of_int ?c"
    by linarith+
  let ?b = "bitLength ?n"
  from bitLength_bounds [OF n1] have lo: "2 ^ (?b - 1) \<le> ?n" and hi: "?n < 2 ^ ?b"
    by simp_all
  have bpos: "0 < ?b" using n1 by (simp add: bitLength.simps [of ?n])
  have e: "exponent2 x = - int ?b" using False by (simp add: exponent2_def)
  have "0 \<le> ?c - 1" using c2 by linarith
  then have nn: "(of_nat ?n :: rat) = of_int (?c - 1)" by (rule of_nat_nat)
  have "(2::rat) ^ (?b - 1) = of_nat (2 ^ (?b - 1))" by simp
  also have "\<dots> \<le> of_nat ?n" using lo by (simp only: of_nat_le_iff)
  finally have "(2::rat) ^ (?b - 1) < 1 / x" using cx nn by linarith
  then have up: "x < 1 / 2 ^ (?b - 1)"
    using assms by (simp add: field_simps)
  have "?n + 1 \<le> 2 ^ ?b" using hi by arith
  then have h1: "(of_nat (?n + 1) :: rat) \<le> of_nat (2 ^ ?b)" by (simp only: of_nat_le_iff)
  have h2: "(of_nat (?n + 1) :: rat) = of_int ?c"
    unfolding of_nat_add nn by simp
  have h3: "(of_nat (2 ^ ?b) :: rat) = 2 ^ ?b" by simp
  have "1 / x \<le> 2 ^ ?b" using cx(2) h1 h2 h3 by linarith
  then have low: "1 / 2 ^ ?b \<le> x"
    using assms by (simp add: field_simps)
  have p1: "(2::rat) powi (- int ?b) = 1 / 2 ^ ?b"
    by (simp add: power_int_minus_divide)
  have "- int ?b + 1 = - int (?b - 1)" using bpos by simp
  then have p2: "(2::rat) powi (- int ?b + 1) = 1 / 2 ^ (?b - 1)"
    by (simp only: power_int_minus_divide power_int_of_nat)
  show ?thesis using low up by (simp only: e p1 p2)
qed


lemma powi_exp_less:
  assumes "(2::rat) powi i \<le> a" "a < 2 powi j"
  shows "i < j"
proof (rule ccontr)
  assume "\<not> i < j"
  then have "j \<le> i" by simp
  then have "(2::rat) powi j \<le> 2 powi i" by (rule power_int_increasing) simp
  with assms show False by linarith
qed

text \<open>
  In the range of the normal doubles, rounding moves a positive number by at most half
  a unit in the last place: a relative error of at most \<open>1 / 2 ^ 53\<close>.
\<close>

lemma toDouble_error:
  assumes lo: "2 powi (- 1022) \<le> a" and hi: "a < 2 powi 1023"
  shows "\<exists>y. toDouble a = Finite y \<and> \<bar>y - a\<bar> \<le> a / 2 ^ 53"
proof -
  have "(0::rat) < 2 powi (- 1022)" by (rule zero_less_power_int) simp
  with lo have a0: "0 < a" by linarith
  define k where "k = exponent2 a"
  from exponent2_bounds [OF a0] have kb: "2 powi k \<le> a" "a < 2 powi (k + 1)"
    by (simp_all add: k_def)
  have "- 1022 < k + 1" using lo kb(2) by (rule powi_exp_less)
  then have kmax: "max k (- 1022) = k" by simp
  define ulp :: rat where "ulp = 2 powi (k - 52)"
  have u0: "0 < ulp" unfolding ulp_def by (rule zero_less_power_int) simp
  define r where "r = roundTiesToEven (a / ulp)"
  define y where "y = of_int r * ulp"
  have "\<bar>of_int r - a / ulp\<bar> \<le> 1 / 2"
    unfolding r_def by (rule roundTiesToEven_error)
  then have "\<bar>of_int r - a / ulp\<bar> * ulp \<le> 1 / 2 * ulp"
    using u0 by (simp only: mult_le_cancel_right_pos)
  moreover have "\<bar>of_int r - a / ulp\<bar> * ulp = \<bar>y - a\<bar>"
  proof -
    have "\<bar>of_int r - a / ulp\<bar> * ulp = \<bar>(of_int r - a / ulp) * ulp\<bar>"
      using u0 by (simp add: abs_mult)
    also have "(of_int r - a / ulp) * ulp = y - a"
      using u0 by (simp add: y_def field_simps)
    finally show ?thesis .
  qed
  ultimately have e1: "\<bar>y - a\<bar> \<le> ulp / 2" by simp
  have "(2::rat) powi (k - 52) = 2 powi k / 2 powi 52"
    by (rule power_int_diff) simp
  then have ulpk: "ulp = 2 powi k / 2 ^ 52" by (simp add: ulp_def)
  have "ulp / 2 = 2 powi k / 2 ^ 53" by (simp add: ulpk)
  also have "\<dots> \<le> a / 2 ^ 53" using kb(1) by (simp add: divide_right_mono)
  finally have e2: "ulp / 2 \<le> a / 2 ^ 53" .
  from e1 e2 have err: "\<bar>y - a\<bar> \<le> a / 2 ^ 53" by linarith
  have "(2::rat) powi 1024 = 2 powi (1023 + 1)" by simp
  also have "\<dots> = 2 powi 1023 * 2" by (rule power_int_add_1) simp
  finally have p: "(2::rat) powi 1024 = 2 powi 1023 * 2" .
  have "a / 2 ^ 53 \<le> a" using a0 by (simp add: field_simps)
  with err have "\<bar>y - a\<bar> \<le> a" by linarith
  then have "y \<le> a + a" by linarith
  with hi have fin: "\<not> y \<ge> 2 powi 1024" unfolding p by linarith
  have "toDouble a = Finite y"
    using a0 fin unfolding toDouble_def Let_def
    by (simp only: k_def [symmetric] kmax ulp_def [symmetric] r_def [symmetric]
        y_def [symmetric] abs_of_pos) simp
  with err show ?thesis by blast
qed

lemma tiny_le: "(2::rat) powi (- 1022) \<le> 1 / 2 ^ 33"
proof -
  have "(2::rat) powi (- 1022) \<le> 2 powi (- 33)"
    by (rule power_int_increasing) simp_all
  also have "\<dots> = 1 / 2 ^ 33" by (simp add: power_int_minus_divide)
  finally show ?thesis .
qed

lemma huge_gt: "(256::rat) < 2 powi 1023"
proof -
  have "(2::rat) powi 8 < 2 powi 1023"
    by (rule power_int_strict_increasing) simp_all
  then show ?thesis by simp
qed

text \<open>
  The percentage of \<open>k\<close> out of \<open>n\<close>, for a length \<open>n\<close> that an array can have: a
  finite number, within a relative error of \<open>1 / 2 ^ 51\<close> of the exact percentage.
\<close>

lemma percentage_accuracy:
  assumes kn: "k \<le> n" and n0: "0 < n" and n32: "n < 2 ^ 32"
  shows "\<exists>p. jsmul (jsdiv (Finite (of_nat k)) (Finite (of_nat n))) (Finite 100) = Finite p \<and>
             \<bar>p - of_nat k / of_nat n * 100\<bar> \<le> (of_nat k / of_nat n * 100) / 2 ^ 51"
proof (cases "k = 0")
  case True
  have "toDouble 0 = Finite 0" by (simp add: toDouble_def)
  then show ?thesis using True n0 by simp
next
  case False
  define x :: rat where "x = of_nat k / of_nat n"
  have nr: "(0::rat) < of_nat n" using n0 by simp
  have "(of_nat n :: rat) < of_nat (2 ^ 32)" using n32 by (simp only: of_nat_less_iff)
  then have nr32: "(of_nat n :: rat) < 2 ^ 32" by simp
  have "(1::rat) \<le> of_nat k" using False by simp
  then have "1 / of_nat n \<le> x" unfolding x_def using nr by (simp add: divide_right_mono)
  moreover have "(1::rat) / 2 ^ 32 < 1 / of_nat n"
    using nr nr32 by (simp add: field_simps)
  ultimately have xlo: "1 / 2 ^ 32 < x" by linarith
  have "(of_nat k :: rat) \<le> of_nat n" using kn by (simp only: of_nat_le_iff)
  then have xhi: "x \<le> 1" unfolding x_def using nr by (simp add: field_simps)
  have x0: "0 < x" using xlo by (simp add: less_trans [rotated])
  have "2 powi (- 1022) \<le> x" using tiny_le xlo by simp
  moreover have "x < 2 powi 1023" using huge_gt xhi by linarith
  ultimately obtain q where q: "toDouble x = Finite q" and qe: "\<bar>q - x\<bar> \<le> x / 2 ^ 53"
    using toDouble_error by blast
  have "x / 2 ^ 53 \<le> x / 2" using x0 by (simp add: field_simps)
  with qe have qb: "x / 2 \<le> q" "q \<le> 2 * x" by linarith+
  have "2 powi (- 1022) \<le> q * 100" using tiny_le xlo qb(1) by simp
  moreover have "q * 100 < 2 powi 1023" using huge_gt xhi qb(2) by linarith
  ultimately obtain p where p: "toDouble (q * 100) = Finite p"
      and pe: "\<bar>p - q * 100\<bar> \<le> q * 100 / 2 ^ 53"
    using toDouble_error by blast
  define d where "d = x / 2 ^ 53"
  have qd: "\<bar>q - x\<bar> \<le> d" using qe by (simp only: d_def)
  have "q * 100 / 2 ^ 53 \<le> 200 * d" using qb(2) by (simp add: d_def field_simps)
  with pe have pd: "\<bar>p - q * 100\<bar> \<le> 200 * d" by linarith
  have "\<bar>p - x * 100\<bar> \<le> 300 * d" using qd pd by linarith
  also have "300 * d \<le> (x * 100) / 2 ^ 51" using x0 by (simp add: d_def field_simps)
  finally have "\<bar>p - x * 100\<bar> \<le> (x * 100) / 2 ^ 51" .
  moreover have "jsmul (jsdiv (Finite (of_nat k)) (Finite (of_nat n))) (Finite 100) = Finite p"
    using n0 q p by (simp add: x_def)
  ultimately show ?thesis unfolding x_def by blast
qed

section \<open>Facts about strings and days\<close>

lemma ascii_eq_iff [simp]: "ascii s = ascii t \<longleftrightarrow> s = t"
  unfolding ascii_def by (simp add: inj_of_char)

lemma length_ascii [simp]: "length (ascii s) = length s"
  by (simp add: ascii_def)

lemma ascii_eq_Nil [simp]: "ascii s = [] \<longleftrightarrow> s = []"
  by (simp add: ascii_def)

lemma trim_Nil [simp]: "trim [] = []"
  by (simp add: trim_def)

lemma trim_example: "trim (ascii '' Pay rent '') = ascii ''Pay rent''"
  by (simp add: trim_def ascii_def isWhiteSpace_def)

lemmas example_defs = exampleEnv_def exampleTask_def taskToday_def taskSaturday_def
  taskLater_def taskNoDeadline_def exampleTasks_def twentyFiveTasks_def

lemma localDay_numeral: "localDay z t = (t + z) div 86400000"
  by (simp add: localDay_def msPerDay_def)

lemma msPerDay_pos: "0 < msPerDay"
  by (simp add: msPerDay_def)

text \<open>Integer division against bounds, for a positive divisor.\<close>

lemma div_le_iff_less:
  assumes D: "0 < (D::int)"
  shows "a div D \<le> q \<longleftrightarrow> a < (q + 1) * D"
proof -
  have split: "a = a div D * D + a mod D" by simp
  have lo: "0 \<le> a mod D" and hi: "a mod D < D" using D by simp_all
  show ?thesis
  proof
    assume "a div D \<le> q"
    then have "(a div D + 1) * D \<le> (q + 1) * D" using D by (simp add: mult_right_mono)
    moreover have "(a div D + 1) * D = a div D * D + D" by (simp add: algebra_simps)
    ultimately show "a < (q + 1) * D" using split hi by linarith
  next
    assume h: "a < (q + 1) * D"
    show "a div D \<le> q"
    proof (rule ccontr)
      assume "\<not> a div D \<le> q"
      then have "q + 1 \<le> a div D" by simp
      then have "(q + 1) * D \<le> a div D * D" using D by (simp add: mult_right_mono)
      then show False using h split lo by linarith
    qed
  qed
qed

lemma le_div_iff_mult_le:
  assumes D: "0 < (D::int)"
  shows "q \<le> b div D \<longleftrightarrow> q * D \<le> b"
proof -
  have "b div D \<le> q - 1 \<longleftrightarrow> b < q * D"
    using div_le_iff_less [OF D, of b "q - 1"] by simp
  then show ?thesis by linarith
qed

text \<open>
  An instant is at or before the end of a day exactly when its own day is not later,
  and at or after the start of a day exactly when its own day is not earlier.
\<close>

lemma le_endOfDay_iff: "a \<le> endOfDay z d \<longleftrightarrow> localDay z a \<le> localDay z d"
proof -
  have "localDay z a \<le> localDay z d \<longleftrightarrow> a + z < (localDay z d + 1) * msPerDay"
    unfolding localDay_def [of z a] by (rule div_le_iff_less [OF msPerDay_pos])
  also have "\<dots> \<longleftrightarrow> a \<le> endOfDay z d"
    by (simp add: endOfDay_def startOfDay_def algebra_simps) arith
  finally show ?thesis by simp
qed

lemma startOfDay_le_iff: "startOfDay z d \<le> b \<longleftrightarrow> localDay z d \<le> localDay z b"
proof -
  have "localDay z d \<le> localDay z b \<longleftrightarrow> localDay z d * msPerDay \<le> b + z"
    unfolding localDay_def [of z b] by (rule le_div_iff_mult_le [OF msPerDay_pos])
  also have "\<dots> \<longleftrightarrow> startOfDay z d \<le> b"
    by (simp add: startOfDay_def algebra_simps)
  finally show ?thesis by simp
qed

lemma localDay_startOfDay: "localDay z (startOfDay z t) = localDay z t"
  by (simp add: localDay_def startOfDay_def msPerDay_def)

lemma localDay_endOfDay: "localDay z (endOfDay z t) = localDay z t"
proof (rule antisym)
  show "localDay z (endOfDay z t) \<le> localDay z t"
    using le_endOfDay_iff [of "endOfDay z t" z t] by simp
  have "startOfDay z t \<le> endOfDay z t" by (simp add: endOfDay_def msPerDay_def)
  then show "localDay z t \<le> localDay z (endOfDay z t)"
    by (simp add: startOfDay_le_iff)
qed

lemma localDay_add_days: "localDay z (t + k * msPerDay) = localDay z t + k"
  by (simp add: localDay_def msPerDay_def add.assoc add.left_commute)

lemma localDay_endOfWeek: "localDay z (endOfWeek z t) = localDay z t + (6 - weekday z t)"
  by (simp add: endOfWeek_def localDay_endOfDay localDay_add_days)

lemma weekday_range: "0 \<le> weekday z t \<and> weekday z t \<le> 6"
  using pos_mod_bound [of 7 "localDay z t + 4"] by (simp add: weekday_def)

text \<open>The end of the week is a Saturday, at most six days after today.\<close>

lemma weekday_endOfWeek: "weekday z (endOfWeek z t) = 6"
proof -
  have "(localDay z t + 4 + (6 - (localDay z t + 4) mod 7)) mod 7 = 6"
    by presburger
  then show ?thesis
    by (simp add: weekday_def localDay_endOfWeek algebra_simps)
qed

text \<open>The day comparisons of dayjs, in terms of local day numbers.\<close>

lemma isSame_day_iff: "isSame_day z d t \<longleftrightarrow> localDay z d = localDay z t"
  by (auto simp: isSame_day_def le_endOfDay_iff startOfDay_le_iff)

lemma isBetween_day_iff:
  "isBetween_day z d a b \<longleftrightarrow>
     (localDay z a \<le> localDay z d \<and> localDay z d \<le> localDay z b) \<or>
     (localDay z b \<le> localDay z d \<and> localDay z d \<le> localDay z a)"
  by (auto simp: isBetween_day_def isBefore_day_def isAfter_day_def not_less
        le_endOfDay_iff startOfDay_le_iff)

section \<open>The filter, mode by mode\<close>

lemma filteredTasks_Today:
  "filteredTasks e (ascii ''Today'') cs ce tasks =
     filter (\<lambda>t. deadlineDay (tz e) t = Some (localDay (tz e) (now e))) tasks"
  by (auto simp: filteredTasks_def deadlineDay_def isSame_day_iff localDay_startOfDay
      split: option.splits intro!: filter_cong)

lemma filteredTasks_This_Week:
  "filteredTasks e (ascii ''This Week'') cs ce tasks =
     filter (\<lambda>t. case deadlineDay (tz e) t of None \<Rightarrow> False
        | Some D \<Rightarrow> localDay (tz e) (now e) \<le> D \<and>
                    D \<le> localDay (tz e) (now e) + (6 - weekday (tz e) (now e))) tasks"
proof -
  have w: "0 \<le> 6 - weekday (tz e) (now e)"
    using weekday_range [of "tz e" "now e"] by simp
  have "isBetween_day (tz e) d (startOfDay (tz e) (now e)) (endOfWeek (tz e) (now e)) \<longleftrightarrow>
        localDay (tz e) (now e) \<le> localDay (tz e) d \<and>
        localDay (tz e) d \<le> localDay (tz e) (now e) + (6 - weekday (tz e) (now e))" for d
    using w by (auto simp: isBetween_day_iff localDay_startOfDay localDay_endOfWeek)
  then show ?thesis
    by (auto simp: filteredTasks_def deadlineDay_def split: option.splits intro!: filter_cong)
qed

lemma filteredTasks_Custom:
  "filteredTasks e (ascii ''Custom'') (Some s) (Some f) tasks =
     filter (\<lambda>t. case deadlineDay (tz e) t of None \<Rightarrow> False
        | Some D \<Rightarrow> min (localDay (tz e) s) (localDay (tz e) f) \<le> D \<and>
                    D \<le> max (localDay (tz e) s) (localDay (tz e) f)) tasks"
proof -
  have "isBetween_day (tz e) d s f \<longleftrightarrow>
        min (localDay (tz e) s) (localDay (tz e) f) \<le> localDay (tz e) d \<and>
        localDay (tz e) d \<le> max (localDay (tz e) s) (localDay (tz e) f)" for d
    by (auto simp: isBetween_day_iff min_def max_def)
  then show ?thesis
    by (auto simp: filteredTasks_def deadlineDay_def split: option.splits intro!: filter_cong)
qed

lemma filteredTasks_examples:
  "filteredTasks exampleEnv (ascii ''Today'') None None exampleTasks = [taskToday]"
  "filteredTasks exampleEnv (ascii ''This Week'') None None exampleTasks =
     [taskToday, taskSaturday]"
  "filteredTasks exampleEnv (ascii ''Custom'') (Some 1794441600000) (Some 1794033000000)
     exampleTasks = [taskSaturday, taskLater]"
  by (simp_all add: filteredTasks_Today filteredTasks_This_Week filteredTasks_Custom
      example_defs deadlineDay_def localDay_numeral weekday_def)

section \<open>Claims about the filter\<close>

text \<open>
  C1. For every task collection, when the filter is Custom and at least one of the two
  bounds is absent, the filter of Home.tsx returns the whole task collection, unchanged
  (and not the empty list).
\<close>

theorem filteredTasks_Custom_incomplete:
  "customStart = None \<or> customEnd = None \<Longrightarrow>
   filteredTasks e (ascii ''Custom'') customStart customEnd tasks = tasks"
  by (auto simp: filteredTasks_def split: option.splits)

theorem filteredTasks_Custom_incomplete_witness:
  "filteredTasks exampleEnv (ascii ''Custom'') None (Some 1794033000000) exampleTasks =
     exampleTasks \<and>
   exampleTasks \<noteq> []"
  using filteredTasks_Custom_incomplete [of None "Some 1794033000000" exampleEnv exampleTasks]
  by (simp add: exampleTasks_def)

text \<open>
  C6. With the filter All, the filtered tasks are the tasks themselves: the same
  elements in the same order.
\<close>

theorem filteredTasks_All_identity:
  "filteredTasks e (ascii ''All'') customStart customEnd tasks = tasks"
  by (simp add: filteredTasks_def)

text \<open>
  C7. A task without a deadline is in none of the results of the filters Today, This
  Week, and Custom with both bounds given.
\<close>

theorem no_deadline_excluded:
  "deadline t = None \<Longrightarrow>
     t \<notin> set (filteredTasks e (ascii ''Today'') customStart customEnd tasks) \<and>
     t \<notin> set (filteredTasks e (ascii ''This Week'') customStart customEnd tasks) \<and>
     t \<notin> set (filteredTasks e (ascii ''Custom'') (Some s) (Some f) tasks)"
  by (simp add: filteredTasks_Today filteredTasks_This_Week filteredTasks_Custom
      deadlineDay_def)

theorem no_deadline_excluded_witness:
  "deadline taskNoDeadline = None \<and> taskNoDeadline \<in> set exampleTasks \<and>
   taskNoDeadline \<notin> set (filteredTasks exampleEnv (ascii ''Today'') None None exampleTasks) \<and>
   taskNoDeadline \<notin>
     set (filteredTasks exampleEnv (ascii ''This Week'') None None exampleTasks) \<and>
   taskNoDeadline \<notin> set (filteredTasks exampleEnv (ascii ''Custom'')
       (Some 1793644199000) (Some 1794441600000) exampleTasks)"
proof -
  have h: "deadline taskNoDeadline = None"
    by (simp add: example_defs)
  have m: "taskNoDeadline \<in> set exampleTasks"
    by (simp add: exampleTasks_def)
  from no_deadline_excluded [OF h] h m show ?thesis by blast
qed

text \<open>
  C8. Range membership includes both boundary days. A task of the collection whose
  deadline falls on the first day of the range (today, for This Week; the day of the
  start bound, for Custom) or on its last day (the last day of the week; the day of the
  end bound) is in the result. And when both Custom bounds lie on one day \<open>D1\<close> and
  exactly one task of the collection has its deadline on \<open>D1\<close>, the result is the
  one-element list of that task.
\<close>

theorem range_boundary_inclusive:
  "(t \<in> set tasks \<and>
      (deadlineDay (tz e) t = Some (localDay (tz e) (now e)) \<or>
       deadlineDay (tz e) t = Some (localDay (tz e) (endOfWeek (tz e) (now e))))
      \<longrightarrow> t \<in> set (filteredTasks e (ascii ''This Week'') customStart customEnd tasks)) \<and>
   (t \<in> set tasks \<and>
      (deadlineDay (tz e) t = Some (localDay (tz e) s) \<or>
       deadlineDay (tz e) t = Some (localDay (tz e) f))
      \<longrightarrow> t \<in> set (filteredTasks e (ascii ''Custom'') (Some s) (Some f) tasks)) \<and>
   (localDay (tz e) s = D1 \<and> localDay (tz e) f = D1 \<and>
      filter (\<lambda>x. deadlineDay (tz e) x = Some D1) tasks = [t]
      \<longrightarrow> filteredTasks e (ascii ''Custom'') (Some s) (Some f) tasks = [t])"
proof (intro conjI impI)
  have w: "0 \<le> 6 - weekday (tz e) (now e)"
    using weekday_range [of "tz e" "now e"] by simp
  assume "t \<in> set tasks \<and>
      (deadlineDay (tz e) t = Some (localDay (tz e) (now e)) \<or>
       deadlineDay (tz e) t = Some (localDay (tz e) (endOfWeek (tz e) (now e))))"
  then show "t \<in> set (filteredTasks e (ascii ''This Week'') customStart customEnd tasks)"
    using w by (auto simp: filteredTasks_This_Week localDay_endOfWeek)
next
  assume "t \<in> set tasks \<and>
      (deadlineDay (tz e) t = Some (localDay (tz e) s) \<or>
       deadlineDay (tz e) t = Some (localDay (tz e) f))"
  then show "t \<in> set (filteredTasks e (ascii ''Custom'') (Some s) (Some f) tasks)"
    by (auto simp: filteredTasks_Custom)
next
  assume a: "localDay (tz e) s = D1 \<and> localDay (tz e) f = D1 \<and>
      filter (\<lambda>x. deadlineDay (tz e) x = Some D1) tasks = [t]"
  have "(case deadlineDay (tz e) x of None \<Rightarrow> False
          | Some D \<Rightarrow> min D1 D1 \<le> D \<and> D \<le> max D1 D1) \<longleftrightarrow>
        deadlineDay (tz e) x = Some D1" for x
    by (cases "deadlineDay (tz e) x") auto
  moreover have s1: "localDay (tz e) s = D1" and f1: "localDay (tz e) f = D1"
    using a by simp_all
  ultimately have "filteredTasks e (ascii ''Custom'') (Some s) (Some f) tasks =
        filter (\<lambda>x. deadlineDay (tz e) x = Some D1) tasks"
    unfolding filteredTasks_Custom s1 f1 by simp
  then show "filteredTasks e (ascii ''Custom'') (Some s) (Some f) tasks = [t]"
    using a by simp
qed

theorem range_boundary_inclusive_witness:
  "taskToday \<in> set exampleTasks \<and>
   deadlineDay (tz exampleEnv) taskToday = Some (localDay (tz exampleEnv) (now exampleEnv)) \<and>
   taskToday \<in> set (filteredTasks exampleEnv (ascii ''This Week'') None None exampleTasks) \<and>
   taskSaturday \<in> set exampleTasks \<and>
   deadlineDay (tz exampleEnv) taskSaturday =
     Some (localDay (tz exampleEnv) (endOfWeek (tz exampleEnv) (now exampleEnv))) \<and>
   taskSaturday \<in>
     set (filteredTasks exampleEnv (ascii ''This Week'') None None exampleTasks) \<and>
   deadlineDay (tz exampleEnv) taskSaturday = Some (localDay (tz exampleEnv) 1794033000000) \<and>
   taskSaturday \<in> set (filteredTasks exampleEnv (ascii ''Custom'')
       (Some 1793644199000) (Some 1794033000000) exampleTasks) \<and>
   localDay (tz exampleEnv) 1794033000000 = 20764 \<and>
   filter (\<lambda>x. deadlineDay (tz exampleEnv) x = Some 20764) exampleTasks = [taskSaturday] \<and>
   filteredTasks exampleEnv (ascii ''Custom'') (Some 1794033000000) (Some 1794033000000)
     exampleTasks = [taskSaturday]"
proof -
  have m1: "taskToday \<in> set exampleTasks" and m2: "taskSaturday \<in> set exampleTasks"
    by (simp_all add: exampleTasks_def)
  have d1: "deadlineDay (tz exampleEnv) taskToday =
              Some (localDay (tz exampleEnv) (now exampleEnv))"
    by (simp add: example_defs deadlineDay_def localDay_numeral)
  have d2: "deadlineDay (tz exampleEnv) taskSaturday =
              Some (localDay (tz exampleEnv) 1794033000000)"
    by (simp add: example_defs deadlineDay_def)
  have d3: "localDay (tz exampleEnv) 1794033000000 = 20764"
    by (simp add: example_defs localDay_numeral)
  have d4: "filter (\<lambda>x. deadlineDay (tz exampleEnv) x = Some 20764) exampleTasks =
              [taskSaturday]"
    by (simp add: example_defs deadlineDay_def localDay_numeral)
  have d5: "deadlineDay (tz exampleEnv) taskSaturday =
              Some (localDay (tz exampleEnv) (endOfWeek (tz exampleEnv) (now exampleEnv)))"
    unfolding localDay_endOfWeek
    by (simp add: example_defs deadlineDay_def localDay_numeral weekday_def)
  note b = range_boundary_inclusive
  from b [of taskSaturday exampleTasks exampleEnv None None] m2 d5
  have r0: "taskSaturday \<in> set (filteredTasks exampleEnv (ascii ''This Week'') None None
              exampleTasks)"
    by blast
  from b [of taskToday exampleTasks exampleEnv None None] m1 d1
  have r1: "taskToday \<in> set (filteredTasks exampleEnv (ascii ''This Week'') None None
              exampleTasks)"
    by blast
  from b [of taskSaturday exampleTasks exampleEnv _ _ 1793644199000 1794033000000] m2 d2
  have r2: "taskSaturday \<in> set (filteredTasks exampleEnv (ascii ''Custom'')
       (Some 1793644199000) (Some 1794033000000) exampleTasks)"
    by blast
  from b [of taskSaturday exampleTasks exampleEnv _ _ 1794033000000 1794033000000 20764]
    d3 d4
  have r3: "filteredTasks exampleEnv (ascii ''Custom'') (Some 1794033000000)
     (Some 1794033000000) exampleTasks = [taskSaturday]"
    by blast
  from m1 m2 d1 d2 d3 d4 d5 r0 r1 r2 r3 show ?thesis by blast
qed

section \<open>Claims about the statistics\<close>

text \<open>
  C4 as stated: for every task collection, the completed percentage equals the completed
  count divided by the total count, times 100. With 7 of 25 tasks done the exact value
  is 28, and the code, which divides and multiplies doubles, computes the next double
  above it, 28.000000000000004.
\<close>

theorem completedTaskPercentage_not_exact:
  "length twentyFiveTasks = 25 \<and>
   length (filter task_done twentyFiveTasks) = 7 \<and>
   completedTaskPercentage (taskStats exampleEnv twentyFiveTasks) =
     Finite (7881299347898369 / 281474976710656) \<and>
   completedTaskPercentage (taskStats exampleEnv twentyFiveTasks) \<noteq>
     Finite (of_nat 7 / of_nat 25 * 100)"
proof -
  have l: "length twentyFiveTasks = 25"
    by (simp add: twentyFiveTasks_def)
  have d: "task_done taskLater" "\<not> task_done taskToday"
    by (simp_all add: example_defs)
  then have c: "length (filter task_done twentyFiveTasks) = 7"
    by (simp add: twentyFiveTasks_def)
  have "completedTaskPercentage (taskStats exampleEnv twentyFiveTasks) =
          jsmul (jsdiv (Finite 7) (Finite 25)) (Finite 100)"
    by (simp add: taskStats_def Let_def l c del: jsmul.simps jsdiv.simps)
  then have p: "completedTaskPercentage (taskStats exampleEnv twentyFiveTasks) =
                  Finite (7881299347898369 / 281474976710656)"
    by (simp only: percentage_7_of_25)
  from l c p show ?thesis by simp
qed

text \<open>
  C4, amended. For every task collection, the completed percentage is the value in
  double arithmetic of the completed count divided by the total count, times 100: the
  quotient rounded to the nearest double, multiplied by 100 and rounded again. It is 0
  when the collection is empty: the guard keeps the division \<open>0 / 0\<close>, whose result
  would be NaN, from being computed, and the percentage is never NaN. It is 100 whenever
  the collection is not empty and every task is done. For a non-empty collection of
  fewer than \<open>2 ^ 32\<close> tasks (the lengths an array can have) it is a finite number
  within a relative error of \<open>1 / 2 ^ 51\<close> of the exact percentage.
\<close>

theorem completedTaskPercentage_double:
  "completedTasksCount (taskStats e tasks) = length (filter task_done tasks) \<and>
   completedTaskPercentage (taskStats e tasks) =
     (if length tasks = 0 then Finite 0
      else jsmul (jsdiv (Finite (of_nat (completedTasksCount (taskStats e tasks))))
                   (Finite (of_nat (length tasks))))
             (Finite 100)) \<and>
   completedTaskPercentage (taskStats e tasks) \<noteq> NaN \<and>
   jsmul (jsdiv (Finite 0) (Finite 0)) (Finite 100) = NaN \<and>
   (tasks = [] \<longrightarrow> completedTaskPercentage (taskStats e tasks) = Finite 0) \<and>
   (tasks \<noteq> [] \<and> (\<forall>t \<in> set tasks. task_done t) \<longrightarrow>
      completedTaskPercentage (taskStats e tasks) = Finite 100) \<and>
   (0 < length tasks \<and> length tasks < 2 ^ 32 \<longrightarrow>
      (\<exists>p. completedTaskPercentage (taskStats e tasks) = Finite p \<and>
           \<bar>p - of_nat (length (filter task_done tasks)) / of_nat (length tasks) * 100\<bar>
             \<le> of_nat (length (filter task_done tasks)) / of_nat (length tasks) * 100
                  / 2 ^ 51))"
proof -
  let ?k = "length (filter task_done tasks)" and ?n = "length tasks"
  let ?pct = "completedTaskPercentage (taskStats e tasks)"
  have cnt: "completedTasksCount (taskStats e tasks) = ?k"
    by (simp add: taskStats_def Let_def)
  have pct: "?pct = (if ?n = 0 then Finite 0
               else jsmul (jsdiv (Finite (of_nat ?k)) (Finite (of_nat ?n))) (Finite 100))"
    by (simp add: taskStats_def Let_def del: jsmul.simps jsdiv.simps)
  have nan: "?pct \<noteq> NaN"
  proof (cases "?n = 0")
    case True
    then show ?thesis by (simp add: taskStats_def Let_def)
  next
    case False
    then have "jsdiv (Finite (of_nat ?k)) (Finite (of_nat ?n)) \<noteq> NaN"
      by (simp add: toDouble_not_NaN)
    then have "jsmul (jsdiv (Finite (of_nat ?k)) (Finite (of_nat ?n))) (Finite 100) \<noteq> NaN"
      by (rule jsmul_100_not_NaN)
    moreover have "?pct = jsmul (jsdiv (Finite (of_nat ?k)) (Finite (of_nat ?n))) (Finite 100)"
      using False by (simp only: pct if_False)
    ultimately show ?thesis by (simp del: jsmul.simps jsdiv.simps)
  qed
  have empty: "tasks = [] \<longrightarrow> ?pct = Finite 0"
    by (simp add: taskStats_def Let_def)
  have full: "tasks \<noteq> [] \<and> (\<forall>t \<in> set tasks. task_done t) \<longrightarrow> ?pct = Finite 100"
  proof
    assume a: "tasks \<noteq> [] \<and> (\<forall>t \<in> set tasks. task_done t)"
    then have k: "?k = ?n" by simp
    from a have n: "?n \<noteq> 0" by simp
    then have "jsdiv (Finite (of_nat ?n)) (Finite (of_nat ?n)) = Finite 1"
      by (simp add: toDouble_1)
    then show "?pct = Finite 100"
      using n by (simp add: pct k toDouble_100 del: jsdiv.simps)
  qed
  have acc: "0 < ?n \<and> ?n < 2 ^ 32 \<longrightarrow>
      (\<exists>p. ?pct = Finite p \<and>
           \<bar>p - of_nat ?k / of_nat ?n * 100\<bar> \<le> of_nat ?k / of_nat ?n * 100 / 2 ^ 51)"
  proof
    assume a: "0 < ?n \<and> ?n < 2 ^ 32"
    have "?k \<le> ?n" by simp
    from percentage_accuracy [OF this] a
    show "\<exists>p. ?pct = Finite p \<and>
           \<bar>p - of_nat ?k / of_nat ?n * 100\<bar> \<le> of_nat ?k / of_nat ?n * 100 / 2 ^ 51"
      by (simp only: pct) simp
  qed
  from cnt pct nan empty full acc percentage_0_of_0 show ?thesis
    by (simp only: cnt) blast
qed

theorem completedTaskPercentage_double_witness:
  "completedTaskPercentage (taskStats exampleEnv []) = Finite 0 \<and>
   [taskLater, taskLater] \<noteq> [] \<and> task_done taskLater \<and>
   completedTaskPercentage (taskStats exampleEnv [taskLater, taskLater]) = Finite 100 \<and>
   0 < length twentyFiveTasks \<and> length twentyFiveTasks < 2 ^ 32 \<and>
   (\<exists>p. completedTaskPercentage (taskStats exampleEnv twentyFiveTasks) = Finite p \<and>
        \<bar>p - of_nat (length (filter task_done twentyFiveTasks)) /
               of_nat (length twentyFiveTasks) * 100\<bar>
          \<le> of_nat (length (filter task_done twentyFiveTasks)) /
               of_nat (length twentyFiveTasks) * 100 / 2 ^ 51)"
proof -
  have d: "task_done taskLater"
    by (simp add: example_defs)
  then have a: "[taskLater, taskLater] \<noteq> [] \<and>
                (\<forall>t \<in> set [taskLater, taskLater]. task_done t)"
    by simp
  have l: "0 < length twentyFiveTasks \<and> length twentyFiveTasks < 2 ^ 32"
    by (simp add: twentyFiveTasks_def)
  from completedTaskPercentage_double [of exampleEnv "[]"]
  have z: "completedTaskPercentage (taskStats exampleEnv []) = Finite 0" by blast
  from completedTaskPercentage_double [of exampleEnv "[taskLater, taskLater]"] a
  have f: "completedTaskPercentage (taskStats exampleEnv [taskLater, taskLater]) =
             Finite 100"
    by blast
  from completedTaskPercentage_double [of exampleEnv twentyFiveTasks] l
  have g: "\<exists>p. completedTaskPercentage (taskStats exampleEnv twentyFiveTasks) = Finite p \<and>
        \<bar>p - of_nat (length (filter task_done twentyFiveTasks)) /
               of_nat (length twentyFiveTasks) * 100\<bar>
          \<le> of_nat (length (filter task_done twentyFiveTasks)) /
               of_nat (length twentyFiveTasks) * 100 / 2 ^ 51"
    by blast
  from z f d a l g show ?thesis by blast
qed

text \<open>
  C5. For every task collection, the tasks due today are exactly the tasks, in their
  order, that have a deadline, whose deadline falls on today's calendar day, and that
  are not done. The snapshot reports their number and their names.
\<close>

theorem dueTodayTasks_exact:
  "dueTodayTasks e tasks =
     filter (\<lambda>t. deadlineDay (tz e) t = Some (localDay (tz e) (now e)) \<and> \<not> task_done t)
       tasks \<and>
   tasksWithDeadlineTodayCount (taskStats e tasks) = length (dueTodayTasks e tasks) \<and>
   tasksDueTodayNames (taskStats e tasks) = map name (dueTodayTasks e tasks)"
  by (auto simp: dueTodayTasks_def taskStats_def Let_def deadlineDay_def isSame_day_iff
      localDay_startOfDay split: option.splits intro!: filter_cong)

text \<open>
  The scenario of the specification: one open task due today and one done task due ten
  days later.
\<close>

lemma taskStats_scenario:
  "taskStats exampleEnv [taskToday, taskLater] =
     \<lparr>completedTasksCount = 1, completedTaskPercentage = Finite 50,
      tasksWithDeadlineTodayCount = 1, tasksDueTodayNames = [ascii ''pay rent'']\<rparr> \<and>
   dueTodayTasks exampleEnv [taskToday, taskLater] = [taskToday]"
  unfolding taskStats_def dueTodayTasks_def Let_def isSame_day_iff localDay_startOfDay
  by (simp add: example_defs localDay_numeral percentage_1_of_2
      del: jsmul.simps jsdiv.simps)

section \<open>Claims about the completion text and the greeting\<close>

lemma tierText_inject: "tierText a = tierText b \<longleftrightarrow> a = b"
  by (cases a; cases b; simp add: ascii_def)

lemma completionMessage_spec_chain:
  "completionMessage_spec p n =
     (if n = 0 then NoTasksYet else if p = 100 then Celebratory
      else if p \<ge> 75 then AlmostThere else if p \<ge> 50 then Halfway
      else if p \<ge> 25 then GoodProgress else JustGettingStarted)"
  by (simp add: completionMessage_spec_def completionTiers_def)

text \<open>
  C2. The completion text of Home.tsx is the message of the tier that the
  specification's ordered table selects, the first matching row winning: no tasks, then
  100 percent, then at least 75, at least 50, at least 25, and the last tier otherwise.
  The six messages differ from one another. With no tasks the first tier is selected
  whatever the percentage; 74 and 75 percent of ten tasks select different tiers.
\<close>

theorem taskCompletionText_tiers:
  "taskCompletionText percentage totalTasks =
     tierText (completionMessage_spec percentage totalTasks) \<and>
   (tierText a = tierText b \<longleftrightarrow> a = b) \<and>
   taskCompletionText x 0 = tierText NoTasksYet \<and>
   taskCompletionText 74 10 = tierText Halfway \<and>
   taskCompletionText 75 10 = tierText AlmostThere \<and>
   taskCompletionText 74 10 \<noteq> taskCompletionText 75 10"
proof -
  have eq: "taskCompletionText p n = tierText (completionMessage_spec p n)" for p n
    by (simp add: taskCompletionText_def completionMessage_spec_chain)
  have "completionMessage_spec 74 10 = Halfway" "completionMessage_spec 75 10 = AlmostThere"
    "completionMessage_spec x 0 = NoTasksYet"
    by (simp_all add: completionMessage_spec_chain)
  then show ?thesis
    by (simp add: eq tierText_inject)
qed

text \<open>
  C3. Every hour is mapped to exactly one of four greetings: the hours from 5 up to
  but not including 12 to the morning greeting, from 12 up to 17 to the afternoon
  greeting, from 17 up to 21 to the evening greeting, and every other hour to the night
  greeting. Hours 4 and 5 get different greetings, and so do hours 11 and 12. The hour
  the greeting is computed from is the local hour, between 0 and 23.
\<close>

theorem greetingOfHour_tiers:
  "(greetingOfHour h = ascii ''Good morning'' \<longleftrightarrow> 5 \<le> h \<and> h < 12) \<and>
   (greetingOfHour h = ascii ''Good afternoon'' \<longleftrightarrow> 12 \<le> h \<and> h < 17) \<and>
   (greetingOfHour h = ascii ''Good evening'' \<longleftrightarrow> 17 \<le> h \<and> h < 21) \<and>
   (greetingOfHour h = ascii ''Good night'' \<longleftrightarrow> h < 5 \<or> 21 \<le> h) \<and>
   greetingOfHour 4 \<noteq> greetingOfHour 5 \<and>
   greetingOfHour 11 \<noteq> greetingOfHour 12 \<and>
   timeGreeting e = greetingOfHour (getHours e) \<and> 0 \<le> getHours e \<and> getHours e \<le> 23"
proof -
  have "0 \<le> (now e + tz e) mod msPerDay" "(now e + tz e) mod msPerDay < msPerDay"
    by (simp_all add: msPerDay_def)
  then have "0 \<le> getHours e \<and> getHours e \<le> 23"
    unfolding getHours_def msPerDay_def by auto
  then show ?thesis
    by (auto simp: greetingOfHour_def timeGreeting_def)
qed

section \<open>Where the near-duplicate differs\<close>

text \<open>
  The copy in src/unnamed/part_000 returns the empty list for an incomplete custom
  range and filters as Home.tsx does otherwise; it has three greetings, with the
  afternoon lasting until 18; and its completion text tests for 0 percent first and
  never reads the number of tasks.
\<close>

lemma filteredTasks_part000_Custom_incomplete:
  "customStart = None \<or> customEnd = None \<Longrightarrow>
   filteredTasks_part000 e (ascii ''Custom'') customStart customEnd tasks = []"
  by (auto simp: filteredTasks_part000_def split: option.splits)

lemma filteredTasks_part000_otherwise:
  "flt \<noteq> ascii ''Custom'' \<or> (customStart \<noteq> None \<and> customEnd \<noteq> None) \<Longrightarrow>
   filteredTasks_part000 e flt customStart customEnd tasks =
     filteredTasks e flt customStart customEnd tasks"
  by (auto simp: filteredTasks_part000_def filteredTasks_def split: option.splits)

lemma greetingOfHour_part000_agrees:
  "greetingOfHour_part000 h = greetingOfHour h \<longleftrightarrow>
     5 \<le> h \<and> h < 17 \<or> 18 \<le> h \<and> h < 21"
  by (auto simp: greetingOfHour_part000_def greetingOfHour_def)

lemma taskCompletionText_part000_zero:
  "taskCompletionText_part000 0 = ascii ''No tasks completed yet. Keep going!''"
  by (simp add: taskCompletionText_part000_def)

section \<open>Claims about the task details\<close>

text \<open>
  C9. For every task without a priority, the details dialog uses the entry of the
  priority table for Medium, and the chip reads Medium: the chip is the one shown for
  the same task with priority Medium.
\<close>

theorem absent_priority_is_Medium:
  "priority task = None \<Longrightarrow>
     priorityConfig task = PRIORITY_CONFIG (ascii ''Medium'') \<and>
     priorityConfig task =
       Some \<lparr>style_color = ascii ''#9c27b0'', style_emoji = [0xD83D, 0xDFE3],
             style_textColor = ascii ''#fff''\<rparr> \<and>
     priorityChip task = priorityChip (task\<lparr>priority := Some Medium\<rparr>) \<and>
     map_option chip_label (priorityChip task) =
       Some ([0xD83D, 0xDFE3] @ ascii '' Medium'')"
  by (simp add: priorityConfig_def priorityOrMedium_def priorityChip_def PRIORITY_CONFIG_def
      ascii_def)

theorem absent_priority_is_Medium_witness:
  "priority taskNoDeadline = None \<and>
   priorityConfig taskNoDeadline = PRIORITY_CONFIG (ascii ''Medium'') \<and>
   map_option chip_label (priorityChip taskNoDeadline) =
     Some ([0xD83D, 0xDFE3] @ ascii '' Medium'')"
proof -
  have h: "priority taskNoDeadline = None"
    by (simp add: example_defs)
  from absent_priority_is_Medium [OF h] h show ?thesis by blast
qed

section \<open>Task creation\<close>

text \<open>What the validation accepts.\<close>

lemma validateForm_verdict:
  "fst (validateForm e st) \<longleftrightarrow>
     trim (form_name st) \<noteq> [] \<and> length (trim (form_name st)) \<le> 100 \<and>
     length (form_description st) \<le> 500 \<and>
     (case form_deadline st of
        None \<Rightarrow> True
      | Some day \<Rightarrow> startOfDay (tz e) (now e) \<le> day * msPerDay)"
  by (auto simp: validateForm_def Let_def split: option.splits)

text \<open>
  The handler changes the user's tasks only when the validation accepts the form and an
  identifier is obtained, and then by appending the one new task.
\<close>

lemma handleAddTask_atomic:
  "snd (handleAddTask e (st, user)) =
     (if fst (validateForm e (st\<lparr>form_error := []\<rparr>))
      then (case randomUUID e of
              Some uuid \<Rightarrow> user\<lparr>user_tasks := user_tasks user @ [newTask e uuid st]\<rparr>
            | None \<Rightarrow> user)
      else user)"
  by (auto simp: handleAddTask_def Let_def split: prod.splits option.splits)

text \<open>
  The new task is neither done nor pinned; its deadline, when a date was chosen, falls
  on the chosen day in local time, at 23:59:59.
\<close>

lemma newTask_fields:
  "\<not> task_done (newTask e uuid st) \<and> \<not> pinned (newTask e uuid st) \<and>
   name (newTask e uuid st) = trim (form_name st) \<and>
   deadlineDay (tz e) (newTask e uuid st) = form_deadline st \<and>
   map_option (\<lambda>d. (d + tz e) mod msPerDay) (deadline (newTask e uuid st)) =
     map_option (\<lambda>day. 86399000) (form_deadline st)"
  by (auto simp: newTask_def deadlineDay_def localDay_def msPerDay_def split: option.splits)

text \<open>
  The deadline test compares midnight of the chosen date in UTC with midnight of today
  in local time. Where local time is UTC or ahead of it, the test rejects exactly the
  dates before today. Where local time is behind UTC, it rejects today's date as well.
\<close>

lemma deadline_check_ahead_of_UTC:
  assumes "0 \<le> z" "z < msPerDay"
  shows "day * msPerDay < startOfDay z t \<longleftrightarrow> day < localDay z t"
proof -
  have "day < localDay z t \<longleftrightarrow> day + 1 \<le> localDay z t" by linarith
  also have "\<dots> \<longleftrightarrow> (day + 1) * msPerDay \<le> localDay z t * msPerDay"
    using msPerDay_pos by simp
  finally have a: "day < localDay z t \<longleftrightarrow>
                   day * msPerDay + msPerDay \<le> localDay z t * msPerDay"
    by (simp add: algebra_simps)
  have b: "day * msPerDay < localDay z t * msPerDay \<longleftrightarrow> day < localDay z t"
    using msPerDay_pos by simp
  show ?thesis
    unfolding startOfDay_def using a b assms by linarith
qed

lemma deadline_check_behind_UTC:
  assumes "z < 0" "- msPerDay < z"
  shows "day * msPerDay < startOfDay z t \<longleftrightarrow> day \<le> localDay z t"
proof
  assume "day * msPerDay < startOfDay z t"
  then have "day * msPerDay < (localDay z t + 1) * msPerDay"
    using assms by (simp add: startOfDay_def algebra_simps)
  then have "day < localDay z t + 1"
    using msPerDay_pos by simp
  then show "day \<le> localDay z t" by simp
next
  assume "day \<le> localDay z t"
  then have "day * msPerDay \<le> localDay z t * msPerDay"
    using msPerDay_pos by simp
  then show "day * msPerDay < startOfDay z t"
    unfolding startOfDay_def using assms by linarith
qed

text \<open>
  So where local time is UTC or ahead of it, and an identifier is obtained, the handler
  does what C10 says: a form that fails one of the four tests leaves the tasks as they
  were, and any other form appends the one new task.
\<close>

lemma handleAddTask_ahead_of_UTC:
  assumes "0 \<le> tz e" "tz e < msPerDay" "randomUUID e = Some uuid"
  shows "snd (handleAddTask e (st, user)) =
     (if trim (form_name st) = [] \<or> length (trim (form_name st)) > 100 \<or>
         length (form_description st) > 500 \<or>
         (case form_deadline st of
            Some day \<Rightarrow> day < localDay (tz e) (now e)
          | None \<Rightarrow> False)
      then user
      else user\<lparr>user_tasks := user_tasks user @ [newTask e uuid st]\<rparr>)"
proof -
  have dl: "startOfDay (tz e) (now e) \<le> day * msPerDay \<longleftrightarrow>
            \<not> day < localDay (tz e) (now e)" for day
    using deadline_check_ahead_of_UTC [OF assms(1,2), of day "now e"] by linarith
  have "fst (validateForm e (st\<lparr>form_error := []\<rparr>)) \<longleftrightarrow>
        \<not> (trim (form_name st) = [] \<or> length (trim (form_name st)) > 100 \<or>
           length (form_description st) > 500 \<or>
           (case form_deadline st of
              Some day \<Rightarrow> day < localDay (tz e) (now e)
            | None \<Rightarrow> False))"
    unfolding validateForm_verdict
    by (cases "form_deadline st") (auto simp: dl)
  then show ?thesis
    using assms(3) by (simp add: handleAddTask_atomic)
qed

text \<open>Five and a half hours ahead of UTC, the form due today is accepted.\<close>

lemma handleAddTask_accepts_today_ahead_of_UTC:
  "localDay (tz exampleEnv) (now exampleEnv) = 20759 \<and>
   handleAddTask exampleEnv (todayForm, exampleUser) =
     (handleClose todayForm,
      \<lparr>user_tasks = exampleTasks @
         [\<lparr>task_id = ascii ''0f8fad5b-d9cb-469f-a165-70867728950e'', task_done = False,
           pinned = False, name = ascii ''Pay rent'', description = None,
           color = ascii ''#1976d2'', date = 1793593800000,
           deadline = Some 1793644199000, category = Some [],
           priority = Some High\<rparr>]\<rparr>)"
  by (simp add: handleAddTask_def validateForm_def Let_def exampleEnv_def todayForm_def
      trim_example localDay_numeral startOfDay_def msPerDay_def newTask_def exampleUser_def
      handleClose_def)

text \<open>
  C10. Task creation is all or nothing with respect to validation: a form with an empty
  trimmed name, a trimmed name over 100 characters, a description over 500 characters
  or a deadline before the start of today adds no task, and every other form adds
  exactly one, not done, not pinned, due at 23:59:59 of the chosen day. The code departs
  from this five hours behind UTC: on 2026-11-02 at 10:00 local time, the form with a
  valid name and the deadline 2026-11-02, which is not before the start of today, is
  refused with the message that the deadline cannot be in the past, and the user's tasks
  stay as they were.
\<close>

theorem handleAddTask_rejects_today_behind_UTC:
  "localDay (tz westEnv) (now westEnv) = 20759 \<and>
   form_deadline todayForm = Some 20759 \<and>
   handleAddTask westEnv (todayForm, exampleUser) =
     (todayForm\<lparr>form_error := ascii ''Deadline cannot be in the past''\<rparr>, exampleUser)"
  by (simp add: handleAddTask_def validateForm_def Let_def westEnv_def todayForm_def
      trim_example localDay_numeral startOfDay_def msPerDay_def)

end
